theory Spec2Isabelle
  imports Main
begin

section \<open>Machine integers of the Go source\<close>

text \<open>
  Go's \<open>int32\<close> and \<open>int64\<close> are modelled as mathematical integers with the
  two's-complement wrap-around written out after every arithmetic operation.
  Go's \<open>/\<close> on integers truncates towards zero.
\<close>

definition wrap32 :: "int \<Rightarrow> int" where
  "wrap32 x = (x + 2147483648) mod 4294967296 - 2147483648"

definition wrap64 :: "int \<Rightarrow> int" where
  "wrap64 x = (x + 9223372036854775808) mod 18446744073709551616 - 9223372036854775808"

definition go_quot :: "int \<Rightarrow> int \<Rightarrow> int" where
  "go_quot a b = sgn a * sgn b * (\<bar>a\<bar> div \<bar>b\<bar>)"

section \<open>The InternalMemberCluster reconciler (member\_controller.go)\<close>

subsection \<open>Heartbeat requeue delay\<close>

text \<open>The constant \<open>jitterPercent = 10\<close> ("we add +-5\% jitter").\<close>

definition jitterPercent :: int where
  "jitterPercent = 10"

text \<open>\<open>time.Millisecond\<close> and \<open>time.Second\<close> as numbers of nanoseconds.\<close>

definition Millisecond :: int where
  "Millisecond = 1000000"

definition Second :: int where
  "Second = 1000000000"

text \<open>
  \<open>utilrand.Int63nRange(min, max)\<close> is \<open>min + rand.Int63n(max - min)\<close>.
  \<open>rand.Int63n(n)\<close> panics when \<open>n <= 0\<close> and otherwise returns a number of
  \<open>[0, n)\<close>; the argument \<open>rnd\<close> is the raw draw of the generator, reduced
  modulo \<open>n\<close>. A panic is the value \<open>None\<close>.
\<close>

definition Int63nRange :: "int \<Rightarrow> int \<Rightarrow> int \<Rightarrow> int option" where
  "Int63nRange lo hi rnd =
     (let n = wrap64 (hi - lo) in
      if n \<le> 0 then None else Some (wrap64 (rnd mod n + lo)))"

text \<open>
  The delay computed at the end of the Join branch of \<open>Reconcile\<close>, in nanoseconds,
  from \<open>Spec.HeartbeatPeriodSeconds\<close> (an \<open>int32\<close>) and the raw random draw:
  \<^verbatim>\<open>
  hbinterval := 1000 * imc.Spec.HeartbeatPeriodSeconds
  jitterRange := int64(hbinterval*jitterPercent) / 100
  time.Millisecond * (time.Duration(hbinterval) +
      time.Duration(utilrand.Int63nRange(0, jitterRange)-jitterRange/2))
  \<close>
\<close>

definition requeueAfter :: "int \<Rightarrow> int \<Rightarrow> int option" where
  "requeueAfter HeartbeatPeriodSeconds rnd =
     (let hbinterval = wrap32 (1000 * HeartbeatPeriodSeconds);
          jitterRange = go_quot (wrap32 (hbinterval * jitterPercent)) 100
      in case Int63nRange 0 jitterRange rnd of
           None \<Rightarrow> None
         | Some r \<Rightarrow>
             Some (wrap64 (Millisecond *
                     wrap64 (hbinterval + wrap64 (r - go_quot jitterRange 2)))))"

subsection \<open>Status update with retry\<close>

text \<open>
  The errors of the hub API server that the reconciler tells apart
  (\<open>apierrors.IsConflict\<close>, \<open>IsServiceUnavailable\<close>, \<open>IsServerTimeout\<close>,
  \<open>IsTooManyRequests\<close>, \<open>IsNotFound\<close>); \<open>OtherError\<close> is any other error.
\<close>

datatype APIError =
  Conflict | ServiceUnavailable | ServerTimeout | TooManyRequests | NotFound | OtherError

definition IsConflict :: "APIError \<Rightarrow> bool" where
  "IsConflict err = (err = Conflict)"

definition IsServiceUnavailable :: "APIError \<Rightarrow> bool" where
  "IsServiceUnavailable err = (err = ServiceUnavailable)"

definition IsServerTimeout :: "APIError \<Rightarrow> bool" where
  "IsServerTimeout err = (err = ServerTimeout)"

definition IsTooManyRequests :: "APIError \<Rightarrow> bool" where
  "IsTooManyRequests err = (err = TooManyRequests)"

text \<open>\<open>client.IgnoreNotFound\<close>: a not-found error becomes \<open>nil\<close>.\<close>

definition IgnoreNotFound :: "APIError option \<Rightarrow> APIError option" where
  "IgnoreNotFound err = (if err = Some NotFound then None else err)"

text \<open>
  \<open>wait.Backoff\<close> of the Kubernetes client library, which \<open>retry.OnError\<close> takes.
  Durations are nanoseconds. The library holds \<open>Factor\<close> and \<open>Jitter\<close> as floats;
  here \<open>Factor\<close> is the integral factor and \<open>Jitter\<close> the jitter in percent.
  \<open>retry.DefaultBackoff\<close> is \<open>{Steps: 4, Duration: 10ms, Factor: 5.0, Jitter: 0.1}\<close>.
\<close>

record Backoff =
  Duration :: int
  Factor :: int
  Jitter :: int
  Steps :: int
  Cap :: int

definition DefaultBackoff :: Backoff where
  "DefaultBackoff =
     \<lparr>Duration = 10 * Millisecond, Factor = 5, Jitter = 10, Steps = 4, Cap = 0\<rparr>"

text \<open>
  \<open>Backoff.Step\<close>: one step is consumed, the duration of this step is returned and the
  next one is multiplied by the factor, bounded by the cap (reaching the cap ends the
  steps). The random jitter is the environment's: \<open>jit d\<close> is the jittered value of the
  duration \<open>d\<close>.
\<close>

definition Step :: "Backoff \<Rightarrow> (int \<Rightarrow> int) \<Rightarrow> Backoff \<times> int" where
  "Step b jit =
     (if Steps b < 1 then (b, if Jitter b > 0 then jit (Duration b) else Duration b)
      else
        let b1 = b\<lparr>Steps := Steps b - 1\<rparr>;
            duration = Duration b;
            b2 = (if Factor b \<noteq> 0
                  then (let d' = wrap64 (Duration b * Factor b) in
                        if Cap b > 0 \<and> d' > Cap b
                        then b1\<lparr>Duration := Cap b, Steps := 0\<rparr>
                        else b1\<lparr>Duration := d'\<rparr>)
                  else b1)
        in (b2, if Jitter b > 0 then jit duration else duration))"

text \<open>
  What a retried call did: the error it returned at last (\<open>None\<close> is \<open>nil\<close>), how many
  times the function was called, and the sleeps between the calls.
\<close>

record RetryOutcome =
  result :: "APIError option"
  attempts :: nat
  sleeps :: "int list"

text \<open>
  \<open>retry.OnError(backoff, retriable, fn)\<close> over \<open>wait.ExponentialBackoff\<close>:
  while steps remain, \<open>fn\<close> is called; success and a non-retriable error return at once;
  a retriable error is remembered, and unless this was the last step the loop sleeps for
  \<open>backoff.Step()\<close> and goes on. When the steps run out, the remembered error is returned.
  \<open>fn n\<close> is the result of the \<open>n\<close>-th call (from 0) of the retried function.
\<close>

function OnError_loop ::
  "Backoff \<Rightarrow> (APIError \<Rightarrow> bool) \<Rightarrow> (nat \<Rightarrow> APIError option) \<Rightarrow> (int \<Rightarrow> int) \<Rightarrow>
   nat \<Rightarrow> APIError option \<Rightarrow> int list \<Rightarrow> RetryOutcome" where
  "OnError_loop b retriable fn jit n lastErr sl =
     (if Steps b > 0 then
        (case fn n of
           None \<Rightarrow> \<lparr>result = None, attempts = Suc n, sleeps = sl\<rparr>
         | Some err \<Rightarrow>
             if retriable err then
               (if Steps b = 1
                then \<lparr>result = Some err, attempts = Suc n, sleeps = sl\<rparr>
                else OnError_loop (fst (Step b jit)) retriable fn jit (Suc n) (Some err)
                       (sl @ [snd (Step b jit)]))
             else \<lparr>result = Some err, attempts = Suc n, sleeps = sl\<rparr>)
      else \<lparr>result = lastErr, attempts = n, sleeps = sl\<rparr>)"
  by pat_completeness auto
termination
  by (relation "measure (\<lambda>(b, retriable, fn, jit, n, lastErr, sl). nat (Steps b))")
     (auto simp add: Step_def Let_def)

definition OnError ::
  "Backoff \<Rightarrow> (APIError \<Rightarrow> bool) \<Rightarrow> (nat \<Rightarrow> APIError option) \<Rightarrow> (int \<Rightarrow> int) \<Rightarrow> RetryOutcome"
  where
  "OnError backoff retriable fn jit = OnError_loop backoff retriable fn jit 0 None []"

text \<open>
  \<open>updateInternalMemberClusterWithRetry\<close>: the default backoff, capped at the heartbeat
  period, retrying on service-unavailable, server-timeout and too-many-requests errors.
  \<open>update n\<close> is the result of the \<open>n\<close>-th call of \<open>hubClient.Status().Update\<close>.
\<close>

definition updateInternalMemberClusterWithRetry ::
  "int \<Rightarrow> (nat \<Rightarrow> APIError option) \<Rightarrow> (int \<Rightarrow> int) \<Rightarrow> RetryOutcome" where
  "updateInternalMemberClusterWithRetry HeartbeatPeriodSeconds update jit =
     OnError (DefaultBackoff\<lparr>Cap := wrap64 (Second * HeartbeatPeriodSeconds)\<rparr>)
       (\<lambda>err. IsServiceUnavailable err \<or> IsServerTimeout err \<or> IsTooManyRequests err)
       update jit"

subsection \<open>Reconcile\<close>

datatype ClusterState = ClusterStateJoin | ClusterStateLeave | ClusterStateOther

text \<open>
  What one call of \<open>Reconcile\<close> meets: the result of reading the object, its spec, and the
  results of the calls it makes (\<open>startAgents\<close>, \<open>stopAgents\<close>, \<open>updateHealth\<close>, the
  status updates), the jitter of the backoff and the draw of the random generator.
\<close>

record ReconcileEnv =
  getErr :: "APIError option"
  SpecState :: ClusterState
  HeartbeatPeriodSeconds :: int
  startAgentsErr :: "APIError option"
  stopAgentsErr :: "APIError option"
  updateHealthErr :: "APIError option"
  statusUpdate :: "nat \<Rightarrow> APIError option"
  backoffJitter :: "int \<Rightarrow> int"
  random :: int

text \<open>
  \<open>Reconcile\<close> returns \<open>(ctrl.Result{RequeueAfter: d}, err)\<close>, or panics
  (in \<open>rand.Int63n\<close>).
\<close>

datatype ReconcileResult = Returned int "APIError option" | Panicked

definition Reconcile :: "ReconcileEnv \<Rightarrow> ReconcileResult" where
  "Reconcile env =
     (case getErr env of
        Some err \<Rightarrow> Returned 0 (IgnoreNotFound (Some err))
      | None \<Rightarrow>
         (case SpecState env of
            ClusterStateJoin \<Rightarrow>
              (case startAgentsErr env of
                 Some err \<Rightarrow> Returned 0 (Some err)
               | None \<Rightarrow>
                  (case result (updateInternalMemberClusterWithRetry
                                  (HeartbeatPeriodSeconds env) (statusUpdate env)
                                  (backoffJitter env)) of
                     Some err \<Rightarrow> Returned 0 (IgnoreNotFound (Some err))
                   | None \<Rightarrow>
                      (case updateHealthErr env of
                         Some err \<Rightarrow> Returned 0 (Some err)
                       | None \<Rightarrow>
                          (case requeueAfter (HeartbeatPeriodSeconds env) (random env) of
                             None \<Rightarrow> Panicked
                           | Some d \<Rightarrow> Returned d None))))
          | ClusterStateLeave \<Rightarrow>
              (case stopAgentsErr env of
                 Some err \<Rightarrow> Returned 0 (Some err)
               | None \<Rightarrow>
                  (case result (updateInternalMemberClusterWithRetry
                                  (HeartbeatPeriodSeconds env) (statusUpdate env)
                                  (backoffJitter env)) of
                     Some err \<Rightarrow> Returned 0 (IgnoreNotFound (Some err))
                   | None \<Rightarrow> Returned 0 None))
          | ClusterStateOther \<Rightarrow> Returned 0 None))"

text \<open>The status update made by one \<open>Reconcile\<close>, as an outcome of the retry.\<close>

definition statusUpdateOutcome :: "ReconcileEnv \<Rightarrow> RetryOutcome" where
  "statusUpdateOutcome env =
     updateInternalMemberClusterWithRetry (HeartbeatPeriodSeconds env) (statusUpdate env)
       (backoffJitter env)"

text \<open>The retry predicate of \<open>updateInternalMemberClusterWithRetry\<close>, by name.\<close>

definition retriable :: "APIError \<Rightarrow> bool" where
  "retriable err = (IsServiceUnavailable err \<or> IsServerTimeout err \<or> IsTooManyRequests err)"

text \<open>The default backoff with duration \<open>d\<close>, \<open>s\<close> steps left and cap \<open>c\<close>.\<close>

definition bk :: "int \<Rightarrow> int \<Rightarrow> int \<Rightarrow> Backoff" where
  "bk d s c = \<lparr>Duration = d, Factor = 5, Jitter = 10, Steps = s, Cap = c\<rparr>"



definition alwaysOk :: "nat \<Rightarrow> APIError option" where
  "alwaysOk n = None"

definition noJitter :: "int \<Rightarrow> int" where
  "noJitter d = d"

definition joinEnv :: "(nat \<Rightarrow> APIError option) \<Rightarrow> ReconcileEnv" where
  "joinEnv update =
     \<lparr>getErr = None, SpecState = ClusterStateJoin, HeartbeatPeriodSeconds = 60,
      startAgentsErr = None, stopAgentsErr = None, updateHealthErr = None,
      statusUpdate = update, backoffJitter = noJitter, random = 4321\<rparr>"

section \<open>Objects of the fleet API\<close>

text \<open>
  The API types (\<open>apis/placement/v1beta1\<close>, \<open>metav1\<close>) are declared outside the files
  at hand; the records below hold the fields that the tests and the specification use.
  Timestamps (\<open>metav1.Time\<close>) are integers.
\<close>

record ObjectMeta =
  Name :: string
  Namespace :: string
  Labels :: "string \<rightharpoonup> string"
  Generation :: int
  Finalizers :: "string list"

datatype ConditionStatus = ConditionTrue | ConditionFalse | ConditionUnknown

record Condition =
  Type :: string
  Status :: ConditionStatus
  Reason :: string
  Message :: string
  ObservedGeneration :: int
  LastTransitionTime :: int

record ResourceIdentifier =
  Group :: string
  Version :: string
  Kind :: string
  ResourceName :: string
  ResourceNamespace :: string

record PatchDetail =
  Path :: string
  ValueInHub :: string
  ValueInMember :: string

record FailedResourcePlacement =
  FailedResource :: ResourceIdentifier
  FailedCondition :: Condition

record DriftedResourcePlacement =
  DriftedResource :: ResourceIdentifier
  DriftedObservationTime :: int
  DriftedTargetClusterObservedGeneration :: int
  FirstDriftedObservedTime :: int
  ObservedDrifts :: "PatchDetail list"

record DiffedResourcePlacement =
  DiffedResource :: ResourceIdentifier
  DiffedObservationTime :: int
  DiffedTargetClusterObservedGeneration :: "int option"
  FirstDiffedObservedTime :: int
  ObservedDiffs :: "PatchDetail list"

datatype BindingState = BindingStateScheduled | BindingStateBound | BindingStateUnscheduled

record ResourceBindingSpec =
  State :: BindingState
  ResourceSnapshotName :: string
  SchedulingPolicySnapshotName :: string
  TargetCluster :: string

record ResourceBindingStatus =
  Conditions :: "Condition list"
  FailedPlacements :: "FailedResourcePlacement list"
  DriftedPlacements :: "DriftedResourcePlacement list"
  DiffedPlacements :: "DiffedResourcePlacement list"

text \<open>A binding (\<open>ClusterResourceBinding\<close> or, with a namespace, \<open>ResourceBinding\<close>).\<close>

record Binding =
  BindingMeta :: ObjectMeta
  BindingSpec :: ResourceBindingSpec
  BindingStatus :: ResourceBindingStatus

text \<open>
  A placement (\<open>ClusterResourcePlacement\<close> or, with a namespace, \<open>ResourcePlacement\<close>);
  the watcher only compares specs, so spec and status are type parameters.
\<close>

record ('spec, 'status) Placement =
  PlacementMeta :: ObjectMeta
  PlacementSpec :: 'spec
  PlacementStatus :: 'status

record MemberCluster =
  ClusterMeta :: ObjectMeta

text \<open>
  The label of a binding that names its placement. Its value is declared outside the
  files at hand; nothing below depends on it.
\<close>

definition PlacementTrackingLabel :: string where
  "PlacementTrackingLabel = ''kubernetes-fleet.io/parent-CRP''"

text \<open>
  Modelled from the spec: \<open>controller.GetObjectKeyFromNamespaceName\<close>, which is not in
  the files at hand. The work-queue key is \<open>name\<close> for cluster-scoped placements and
  \<open>namespace/name\<close> for namespace-scoped ones.
\<close>

definition GetObjectKeyFromNamespaceName :: "string \<Rightarrow> string \<Rightarrow> string" where
  "GetObjectKeyFromNamespaceName namespace name =
     (if namespace = [] then name else namespace @ ''/'' @ name)"

text \<open>Reading a Go \<open>map[string]string\<close>: an absent key gives the empty string.\<close>

definition getLabel :: "(string \<rightharpoonup> string) \<Rightarrow> string \<Rightarrow> string" where
  "getLabel labels k = (case labels k of None \<Rightarrow> [] | Some v \<Rightarrow> v)"

definition placementKey :: "('spec, 'status) Placement \<Rightarrow> string" where
  "placementKey p =
     GetObjectKeyFromNamespaceName (Namespace (PlacementMeta p)) (Name (PlacementMeta p))"

text \<open>The key of the placement that owns a binding, as the tests compute it.\<close>

definition ownerKey :: "Binding \<Rightarrow> string" where
  "ownerKey b =
     GetObjectKeyFromNamespaceName (Namespace (BindingMeta b))
       (getLabel (Labels (BindingMeta b)) PlacementTrackingLabel)"

section \<open>Change-detection watchers\<close>

text \<open>The events that a watch delivers.\<close>

datatype 'o Event = CreateEvent 'o | UpdateEvent 'o 'o | DeleteEvent 'o

subsection \<open>Placement watcher\<close>

text \<open>
  Modelled from the spec: the decision function of the placement watcher
  (\<open>pkg/controllers/clusterresourceplacementwatcher\<close>), which is not in the files at
  hand; only its integration test is. \<open>ShouldEnqueue(oldObj, newObj) -> (key, bool)\<close>:
  placement spec changes (including a generation bump) always enqueue, status-only
  changes never enqueue.
\<close>

definition placementShouldEnqueue ::
  "('spec, 'status) Placement \<Rightarrow> ('spec, 'status) Placement \<Rightarrow> string \<times> bool" where
  "placementShouldEnqueue oldObj newObj =
     (placementKey newObj,
      PlacementSpec oldObj \<noteq> PlacementSpec newObj \<or>
      Generation (PlacementMeta oldObj) \<noteq> Generation (PlacementMeta newObj))"

text \<open>
  Modelled from the spec: the placement watcher on the three kinds of event. Delete
  events always enqueue the placement; so do create events, as the integration test
  expects ("placementController should receive the CRP name when creating CRP").
  The result is the key put on the work queue, if any.
\<close>

fun placementWatcher :: "('spec, 'status) Placement Event \<Rightarrow> string option" where
  "placementWatcher (CreateEvent obj) = Some (placementKey obj)"
| "placementWatcher (UpdateEvent oldObj newObj) =
     (if snd (placementShouldEnqueue oldObj newObj)
      then Some (fst (placementShouldEnqueue oldObj newObj)) else None)"
| "placementWatcher (DeleteEvent obj) = Some (placementKey obj)"

subsection \<open>Binding watchers\<close>

text \<open>
  The semantically relevant part of a condition: type, status, reason and observed
  generation; the last transition time (and the message) are left out.
\<close>

definition conditionKey :: "Condition \<Rightarrow> string \<times> ConditionStatus \<times> string \<times> int" where
  "conditionKey c = (Type c, Status c, Reason c, ObservedGeneration c)"

text \<open>The timestamp-stripped projections of the elements of the three lists.\<close>

definition stripCondition :: "Condition \<Rightarrow> Condition" where
  "stripCondition c = c\<lparr>LastTransitionTime := 0\<rparr>"

definition stripFailed :: "FailedResourcePlacement \<Rightarrow> FailedResourcePlacement" where
  "stripFailed f = f\<lparr>FailedCondition := stripCondition (FailedCondition f)\<rparr>"

definition stripDrifted :: "DriftedResourcePlacement \<Rightarrow> DriftedResourcePlacement" where
  "stripDrifted d = d\<lparr>DriftedObservationTime := 0, FirstDriftedObservedTime := 0\<rparr>"

definition stripDiffed :: "DiffedResourcePlacement \<Rightarrow> DiffedResourcePlacement" where
  "stripDiffed d = d\<lparr>DiffedObservationTime := 0, FirstDiffedObservedTime := 0\<rparr>"

text \<open>Two lists are equal as sets of projections: each holds the projections of the other.\<close>

definition sameAsSets :: "('a \<Rightarrow> 'b) \<Rightarrow> 'a list \<Rightarrow> 'a list \<Rightarrow> bool" where
  "sameAsSets f xs ys =
     (list_all (\<lambda>x. f x \<in> set (map f ys)) xs \<and> list_all (\<lambda>y. f y \<in> set (map f xs)) ys)"

text \<open>
  Modelled from the spec: the status comparison of the binding watcher, which is not in
  the files at hand. A binding status change is relevant if a condition's
  type/status/reason/observedGeneration changed (last-transition-time-only changes are
  ignored), or if the failed/drifted/diffed-placement lists differ as sets (order-
  insensitive comparison of the timestamp-stripped projection of each element).
\<close>

definition isBindingStatusUpdated :: "Binding \<Rightarrow> Binding \<Rightarrow> bool" where
  "isBindingStatusUpdated oldObj newObj =
     (\<not> sameAsSets conditionKey (Conditions (BindingStatus oldObj))
          (Conditions (BindingStatus newObj)) \<or>
      \<not> sameAsSets stripFailed (FailedPlacements (BindingStatus oldObj))
          (FailedPlacements (BindingStatus newObj)) \<or>
      \<not> sameAsSets stripDrifted (DriftedPlacements (BindingStatus oldObj))
          (DriftedPlacements (BindingStatus newObj)) \<or>
      \<not> sameAsSets stripDiffed (DiffedPlacements (BindingStatus oldObj))
          (DiffedPlacements (BindingStatus newObj)))"

text \<open>
  Modelled from the spec: \<open>ShouldEnqueue(oldObj, newObj) -> (key, bool)\<close> of the binding
  watcher; binding metadata-only or spec-only changes do not enqueue.
\<close>

definition bindingShouldEnqueue :: "Binding \<Rightarrow> Binding \<Rightarrow> string \<times> bool" where
  "bindingShouldEnqueue oldObj newObj = (ownerKey newObj, isBindingStatusUpdated oldObj newObj)"

text \<open>
  Modelled from the spec: the binding watcher of the placement controller (package
  \<open>clusterresourcebindingwatcher\<close>), which is not in the files at hand; only its
  integration test is. On create and on delete events the test expects the queue to stay
  empty ("When creating, deleting clusterResourceBinding": the queue is checked to be
  empty after the create and after the delete), so these two branches follow the test.
\<close>

fun bindingWatcher :: "Binding Event \<Rightarrow> string option" where
  "bindingWatcher (CreateEvent obj) = None"
| "bindingWatcher (UpdateEvent oldObj newObj) =
     (if snd (bindingShouldEnqueue oldObj newObj)
      then Some (fst (bindingShouldEnqueue oldObj newObj)) else None)"
| "bindingWatcher (DeleteEvent obj) = None"

text \<open>
  Modelled from the spec: the binding watcher of the scheduler (package
  \<open>pkg/scheduler/watchers/clusterresourcebinding\<close>), which is not in the files at
  hand; only its integration test is. Delete events on a binding always enqueue the
  owner; creating a binding and updating it enqueue nothing ("should not enqueue the
  CRP name when CRB is created", "... when it CRB is updated").
\<close>

fun schedulerBindingWatcher :: "Binding Event \<Rightarrow> string option" where
  "schedulerBindingWatcher (CreateEvent obj) = None"
| "schedulerBindingWatcher (UpdateEvent oldObj newObj) = None"
| "schedulerBindingWatcher (DeleteEvent obj) = Some (ownerKey obj)"

section \<open>CycleState\<close>

type_synonym StateKey = string

datatype CycleStateError = KeyNotFound StateKey

text \<open>
  Modelled from the spec: \<open>CycleState\<close> of \<open>pkg/scheduler/framework\<close>, which is not in
  the files at hand; only its test is. It holds the key/value scratch mapping, the
  cluster inventory and the two indices, Go maps from cluster name to \<open>bool\<close>. Values
  (Go's \<open>interface{}\<close>) are of any type \<open>'v\<close>.
\<close>

record 'v CycleState =
  store :: "StateKey \<rightharpoonup> 'v"
  clusters :: "MemberCluster list"
  scheduledOrBoundBindings :: "string \<rightharpoonup> bool"
  obsoleteBindings :: "string \<rightharpoonup> bool"

text \<open>
  Modelled from the spec: the two indices, computed once per cycle; every binding marks
  its target cluster. \<open>prepareScheduledOrBoundBindingsMap\<close> takes any number of binding
  lists (the test passes the scheduled and the bound ones).
\<close>

definition prepareObsoleteBindingsMap :: "Binding list \<Rightarrow> (string \<rightharpoonup> bool)" where
  "prepareObsoleteBindingsMap obsolete =
     foldl (\<lambda>bm binding. bm(TargetCluster (BindingSpec binding) \<mapsto> True)) Map.empty obsolete"

definition prepareScheduledOrBoundBindingsMap :: "Binding list list \<Rightarrow> (string \<rightharpoonup> bool)" where
  "prepareScheduledOrBoundBindingsMap bindingSets =
     foldl (\<lambda>bm bindingSet.
              foldl (\<lambda>bm binding. bm(TargetCluster (BindingSpec binding) \<mapsto> True)) bm bindingSet)
       Map.empty bindingSets"

text \<open>
  Modelled from the spec: the operations of \<open>CycleState\<close>. It is constructed from the
  cluster list, the obsolete-binding list and the scheduled-or-bound-binding lists.
  \<open>Write\<close> inserts or overwrites; \<open>Read\<close> returns the value and fails with a not-found
  error if the key is absent; \<open>Delete\<close> removes a key (no-op if absent); \<open>ListClusters\<close>
  returns the inventory in the order supplied at construction; the two \<open>Has...For\<close>
  are membership tests against the indices (an absent key of a Go map reads \<open>false\<close>).
\<close>

definition NewCycleState ::
  "MemberCluster list \<Rightarrow> Binding list \<Rightarrow> Binding list list \<Rightarrow> 'v CycleState" where
  "NewCycleState cs obsolete scheduledOrBound =
     \<lparr>store = Map.empty, clusters = cs,
      scheduledOrBoundBindings = prepareScheduledOrBoundBindingsMap scheduledOrBound,
      obsoleteBindings = prepareObsoleteBindingsMap obsolete\<rparr>"

definition Write :: "'v CycleState \<Rightarrow> StateKey \<Rightarrow> 'v \<Rightarrow> 'v CycleState" where
  "Write c key val = c\<lparr>store := (store c)(key \<mapsto> val)\<rparr>"

definition Read :: "'v CycleState \<Rightarrow> StateKey \<Rightarrow> CycleStateError + 'v" where
  "Read c key = (case store c key of None \<Rightarrow> Inl (KeyNotFound key) | Some v \<Rightarrow> Inr v)"

definition Delete :: "'v CycleState \<Rightarrow> StateKey \<Rightarrow> 'v CycleState" where
  "Delete c key = c\<lparr>store := (store c)(key := None)\<rparr>"

definition ListClusters :: "'v CycleState \<Rightarrow> MemberCluster list" where
  "ListClusters c = clusters c"

definition HasScheduledOrBoundBindingFor :: "'v CycleState \<Rightarrow> string \<Rightarrow> bool" where
  "HasScheduledOrBoundBindingFor c clusterName =
     (case scheduledOrBoundBindings c clusterName of None \<Rightarrow> False | Some v \<Rightarrow> v)"

definition HasObsoleteBindingFor :: "'v CycleState \<Rightarrow> string \<Rightarrow> bool" where
  "HasObsoleteBindingFor c clusterName =
     (case obsoleteBindings c clusterName of None \<Rightarrow> False | Some v \<Rightarrow> v)"

text \<open>A sequence of scratch-space operations performed on a \<open>CycleState\<close>.\<close>

datatype 'v Op = OpWrite StateKey 'v | OpRead StateKey | OpDelete StateKey

fun applyOp :: "'v CycleState \<Rightarrow> 'v Op \<Rightarrow> 'v CycleState" where
  "applyOp c (OpWrite key val) = Write c key val"
| "applyOp c (OpRead key) = c"
| "applyOp c (OpDelete key) = Delete c key"

definition applyOps :: "'v CycleState \<Rightarrow> 'v Op list \<Rightarrow> 'v CycleState" where
  "applyOps c ops = foldl applyOp c ops"

section \<open>Properties\<close>

lemma wrap32_id: "- 2147483648 \<le> x \<Longrightarrow> x < 2147483648 \<Longrightarrow> wrap32 x = x"
  unfolding wrap32_def by (simp add: mod_pos_pos_trivial)

lemma wrap64_id:
  "- 9223372036854775808 \<le> x \<Longrightarrow> x < 9223372036854775808 \<Longrightarrow> wrap64 x = x"
  unfolding wrap64_def by (simp add: mod_pos_pos_trivial)

lemma go_quot_nonneg: "0 \<le> a \<Longrightarrow> 0 < b \<Longrightarrow> go_quot a b = a div b"
  unfolding go_quot_def by (cases "a = 0") (simp_all add: sgn_if)

lemma requeueAfter_value:
  assumes "1 \<le> P" and "P \<le> 600"
  shows "requeueAfter P rnd = Some (1000000 * (950 * P + rnd mod (100 * P)))"
proof -
  have hb: "wrap32 (1000 * P) = 1000 * P"
    using assms by (intro wrap32_id) simp_all
  have m: "wrap32 (1000 * P * 10) = 10000 * P"
    using assms by (subst wrap32_id) simp_all
  have q: "go_quot (10000 * P) 100 = 100 * P"
    using assms by (subst go_quot_nonneg) simp_all
  have h: "go_quot (100 * P) 2 = 50 * P"
    using assms by (subst go_quot_nonneg) simp_all
  have r0: "0 \<le> rnd mod (100 * P)" and r1: "rnd mod (100 * P) < 100 * P"
    using assms by simp_all
  have n: "wrap64 (100 * P - 0) = 100 * P"
    using assms by (subst wrap64_id) simp_all
  have a: "wrap64 (rnd mod (100 * P) + 0) = rnd mod (100 * P)"
    using assms r0 r1 by (subst wrap64_id) simp_all
  have b: "wrap64 (rnd mod (100 * P) - 50 * P) = rnd mod (100 * P) - 50 * P"
    using assms r0 r1 by (subst wrap64_id) simp_all
  have c: "wrap64 (1000 * P + (rnd mod (100 * P) - 50 * P)) = 950 * P + rnd mod (100 * P)"
    using assms r0 r1 by (subst wrap64_id) simp_all
  have d: "wrap64 (1000000 * (950 * P + rnd mod (100 * P)))
             = 1000000 * (950 * P + rnd mod (100 * P))"
    using assms r0 r1 by (subst wrap64_id) simp_all
  have pos: "\<not> 100 * P \<le> 0" using assms by simp
  show ?thesis
    unfolding requeueAfter_def Int63nRange_def jitterPercent_def Millisecond_def Let_def
    by (simp only: hb m q h n a b c d pos if_False option.case)
qed

subsection \<open>The retry loop\<close>

declare OnError_loop.simps [simp del]

lemma Step_bk:
  assumes "s \<ge> 1" and "0 \<le> d" and "d \<le> 1000000000"
  shows "Step (bk d s c) jit =
           (if c > 0 \<and> d * 5 > c then bk c 0 c else bk (d * 5) (s - 1) c, jit d)"
proof -
  have "wrap64 (d * 5) = d * 5"
    using assms by (intro wrap64_id) simp_all
  then show ?thesis
    using assms unfolding Step_def Let_def bk_def by simp
qed

lemma loop_last:
  "OnError_loop (bk d 1 c) r u jit n l sl = \<lparr>result = u n, attempts = Suc n, sleeps = sl\<rparr>"
  by (subst OnError_loop.simps) (simp add: bk_def split: option.split)


lemma loop_more:
  assumes "s \<ge> 2" and "0 \<le> d" and "d \<le> 1000000000"
  shows "OnError_loop (bk d s c) r u jit n l sl =
     (case u n of
        None \<Rightarrow> \<lparr>result = None, attempts = Suc n, sleeps = sl\<rparr>
      | Some e \<Rightarrow>
          if r e
          then OnError_loop (if c > 0 \<and> d * 5 > c then bk c 0 c else bk (d * 5) (s - 1) c)
                 r u jit (Suc n) (Some e) (sl @ [jit d])
          else \<lparr>result = Some e, attempts = Suc n, sleeps = sl\<rparr>)"
proof -
  have s: "Steps (bk d s c) = s"
    by (simp add: bk_def)
  have st: "Step (bk d s c) jit =
           (if c > 0 \<and> d * 5 > c then bk c 0 c else bk (d * 5) (s - 1) c, jit d)"
    using assms by (intro Step_bk) simp_all
  show ?thesis
    using assms by (subst OnError_loop.simps) (simp add: s st split: option.split)
qed

lemma retry_start:
  "updateInternalMemberClusterWithRetry P u jit =
     OnError_loop (bk 10000000 4 (wrap64 (1000000000 * P))) retriable u jit 0 None []"
  unfolding updateInternalMemberClusterWithRetry_def OnError_def DefaultBackoff_def
    retriable_def bk_def Millisecond_def Second_def
  by simp

text \<open>
  With a heartbeat period of at least two seconds the cap is never reached and the
  update is tried up to four times, sleeping 10, 50 and 250 milliseconds (jittered).
\<close>

lemma retry_unfold_ge2:
  assumes "2 \<le> P" and "P \<le> 600"
  shows "updateInternalMemberClusterWithRetry P u jit =
    (case u 0 of
       None \<Rightarrow> \<lparr>result = None, attempts = 1, sleeps = []\<rparr>
     | Some e0 \<Rightarrow>
        if retriable e0 then
          (case u 1 of
             None \<Rightarrow> \<lparr>result = None, attempts = 2, sleeps = [jit 10000000]\<rparr>
           | Some e1 \<Rightarrow>
              if retriable e1 then
                (case u 2 of
                   None \<Rightarrow> \<lparr>result = None, attempts = 3,
                             sleeps = [jit 10000000, jit 50000000]\<rparr>
                 | Some e2 \<Rightarrow>
                    if retriable e2
                    then \<lparr>result = u 3, attempts = 4,
                          sleeps = [jit 10000000, jit 50000000, jit 250000000]\<rparr>
                    else \<lparr>result = Some e2, attempts = 3,
                          sleeps = [jit 10000000, jit 50000000]\<rparr>)
              else \<lparr>result = Some e1, attempts = 2, sleeps = [jit 10000000]\<rparr>)
        else \<lparr>result = Some e0, attempts = 1, sleeps = []\<rparr>)"
proof -
  have cap: "wrap64 (1000000000 * P) = 1000000000 * P"
    using assms by (intro wrap64_id) simp_all
  show ?thesis
    unfolding retry_start cap using assms
    by (simp add: loop_more loop_last numeral_2_eq_2 numeral_3_eq_3 split: option.split)
qed








subsection \<open>The requeue delay of a Join reconcile\<close>

text \<open>
  C10. A successful Join reconcile (the object is read, the agents start, the status
  update and the health update succeed) of an InternalMemberCluster whose heartbeat
  period is \<open>P\<close> seconds, \<open>1 \<le> P \<le> 600\<close>, returns without error and requeues after
  a delay in \<open>[0.95 P, 1.05 P)\<close> seconds, whatever the random draw: in nanoseconds, at
  least \<open>950000000 P\<close> and below \<open>1050000000 P\<close>.
\<close>

theorem Reconcile_join_requeue_within_jitter:
  assumes "getErr env = None" and "SpecState env = ClusterStateJoin"
    and "startAgentsErr env = None" and "result (statusUpdateOutcome env) = None"
    and "updateHealthErr env = None"
    and "1 \<le> HeartbeatPeriodSeconds env" and "HeartbeatPeriodSeconds env \<le> 600"
  shows "\<exists>d. Reconcile env = Returned d None \<and>
             950000000 * HeartbeatPeriodSeconds env \<le> d \<and>
             d < 1050000000 * HeartbeatPeriodSeconds env"
proof -
  let ?P = "HeartbeatPeriodSeconds env"
  have r0: "0 \<le> random env mod (100 * ?P)" and r1: "random env mod (100 * ?P) < 100 * ?P"
    using assms(6) by simp_all
  have "Reconcile env = Returned (1000000 * (950 * ?P + random env mod (100 * ?P))) None"
    using assms(1-5) requeueAfter_value [OF assms(6,7), of "random env"]
    unfolding Reconcile_def statusUpdateOutcome_def by simp
  then show ?thesis using r0 r1 by simp
qed

text \<open>A Join reconcile with a heartbeat period of 60 seconds.\<close>

theorem Reconcile_join_requeue_within_jitter_witness:
  "\<exists>d. Reconcile (joinEnv alwaysOk) = Returned d None \<and>
       950000000 * 60 \<le> d \<and> d < 1050000000 * 60"
proof -
  have o: "result (statusUpdateOutcome (joinEnv alwaysOk)) = None"
    by (simp add: statusUpdateOutcome_def joinEnv_def retry_unfold_ge2 alwaysOk_def)
  have h: "getErr (joinEnv alwaysOk) = None" "SpecState (joinEnv alwaysOk) = ClusterStateJoin"
    "startAgentsErr (joinEnv alwaysOk) = None" "updateHealthErr (joinEnv alwaysOk) = None"
    "1 \<le> HeartbeatPeriodSeconds (joinEnv alwaysOk)"
    "HeartbeatPeriodSeconds (joinEnv alwaysOk) \<le> 600"
    "HeartbeatPeriodSeconds (joinEnv alwaysOk) = 60"
    by (simp_all add: joinEnv_def)
  show ?thesis
    using Reconcile_join_requeue_within_jitter [OF h(1,2,3) o h(4,5,6)] by (simp add: h(7))
qed

end
